theory Spec2Isabelle
  imports Main "HOL-Library.Word"
begin

unbundle bit_operations_syntax

section \<open>The persistence layer of advanced-shell-history (database.cpp)\<close>

text \<open>
  The development embeds \<^verbatim>\<open>src/database.cpp\<close> together with the parts of
  \<^verbatim>\<open>config.cpp\<close> and \<^verbatim>\<open>logger.cpp\<close> it calls. The sqlite3 engine, the C library
  and the operating system are the environment: their answers are fields of a record
  \<open>world\<close>, and every function of the source that touches them takes the world and
  returns it updated.
\<close>

subsection \<open>Characters and C library helpers\<close>

text \<open>
  \<^verbatim>\<open>isprint\<close>, \<^verbatim>\<open>isspace\<close> and \<^verbatim>\<open>isdigit\<close> in the "C" locale (the program never
  calls \<^verbatim>\<open>setlocale\<close>): the printable characters are the bytes 0x20 to 0x7E.
\<close>

definition isprint :: "char \<Rightarrow> bool" where
  "isprint c = (32 \<le> (of_char c :: nat) \<and> (of_char c :: nat) \<le> 126)"

definition isspace :: "char \<Rightarrow> bool" where
  "isspace c = ((of_char c :: nat) = 32 \<or> (9 \<le> (of_char c :: nat) \<and> (of_char c :: nat) \<le> 13))"

definition isdigit :: "char \<Rightarrow> bool" where
  "isdigit c = (48 \<le> (of_char c :: nat) \<and> (of_char c :: nat) \<le> 57)"

text \<open>
  \<^verbatim>\<open>atoi\<close>: leading white space, an optional sign, then the longest run of decimal
  digits; 0 when there is none. The result is the mathematical value; C leaves a value
  outside the range of \<^verbatim>\<open>int\<close> undefined.
\<close>

fun digits_value :: "string \<Rightarrow> int \<Rightarrow> int" where
  "digits_value [] acc = acc"
| "digits_value (c # cs) acc =
     (if isdigit c then digits_value cs (10 * acc + (of_char c - 48)) else acc)"

definition atoi :: "string \<Rightarrow> int" where
  "atoi s =
     (case dropWhile isspace s of
        [] \<Rightarrow> 0
      | c # cs \<Rightarrow>
          if c = CHR ''-'' then - digits_value cs 0
          else if c = CHR ''+'' then digits_value cs 0
          else digits_value (c # cs) 0)"

subsection \<open>DBObject::quote\<close>

text \<open>
  The loop of \<^verbatim>\<open>DBObject::quote(const string &)\<close> over the input, with the output
  string \<open>out\<close> as accumulator. The \<^verbatim>\<open>switch\<close> has three arms: newline and tab are
  appended; a single quote is appended and then falls through to the default arm; the
  default arm appends the character when \<^verbatim>\<open>isprint\<close> accepts it.
\<close>

fun quote_loop :: "string \<Rightarrow> string \<Rightarrow> string" where
  "quote_loop [] out = out"
| "quote_loop (c # cs) out =
     quote_loop cs
       (if c = CHR 0x0A \<or> c = CHR 0x09 then out @ [c]
        else
          (let out1 = (if c = CHR 0x27 then out @ [c] else out)
           in if isprint c then out1 @ [c] else out1))"

definition quote :: "string \<Rightarrow> string" where
  "quote in_str =
     (if in_str = [] then ''null''
      else quote_loop in_str [CHR 0x27] @ [CHR 0x27])"

text \<open>\<^verbatim>\<open>DBObject::quote(const char *)\<close>: a null pointer gives the keyword as well.\<close>

definition quote_cstr :: "string option \<Rightarrow> string" where
  "quote_cstr v = (case v of None \<Rightarrow> ''null'' | Some s \<Rightarrow> quote s)"

text \<open>
  The specification's wording of the escaping, character by character: tab and newline
  pass through, a single quote is doubled, any other printable character is kept, and
  everything else is dropped.
\<close>

definition quote_spec_char :: "char \<Rightarrow> string" where
  "quote_spec_char c =
     (if c = CHR 0x09 \<or> c = CHR 0x0A then [c]
      else if c = CHR 0x27 then [c, c]
      else if isprint c then [c]
      else [])"

definition quote_spec :: "string \<Rightarrow> string" where
  "quote_spec raw =
     (if raw = [] then ''null''
      else [CHR 0x27] @ concat (map quote_spec_char raw) @ [CHR 0x27])"

subsection \<open>The environment\<close>

text \<open>
  Result codes of sqlite3 used by the source (\<^verbatim>\<open>sqlite3.h\<close> is not part of the
  repository; the values are those of the sqlite3 C interface).
\<close>

abbreviation (input) SQLITE_BUSY :: int where "SQLITE_BUSY \<equiv> 5"
abbreviation (input) SQLITE_LOCKED :: int where "SQLITE_LOCKED \<equiv> 6"
abbreviation (input) SQLITE_CONSTRAINT :: int where "SQLITE_CONSTRAINT \<equiv> 19"
abbreviation (input) SQLITE_ROW :: int where "SQLITE_ROW \<equiv> 100"
abbreviation (input) SQLITE_DONE :: int where "SQLITE_DONE \<equiv> 101"

abbreviation (input) INT_MAX :: int where "INT_MAX \<equiv> 2147483647"

text \<open>
  A prepared statement, as far as the source reads it: \<^verbatim>\<open>sqlite3_column_count\<close> and
  \<^verbatim>\<open>sqlite3_column_name\<close>.
\<close>

record stmt =
  column_count :: nat
  column_name :: "nat \<Rightarrow> string"

text \<open>
  One call of \<^verbatim>\<open>sqlite3_prepare_v2\<close> either sets the statement pointer or leaves it
  null, and then \<^verbatim>\<open>sqlite3_errcode\<close> reports a code.
\<close>

datatype prepare_answer = Compiled stmt | Refused int

text \<open>
  One call of \<^verbatim>\<open>sqlite3_step\<close>: the result code, what \<^verbatim>\<open>sqlite3_column_text\<close>
  returns for each column afterwards (a null pointer is \<open>None\<close>), and what
  \<^verbatim>\<open>sqlite3_last_insert_rowid\<close> reports afterwards.
\<close>

record step_answer =
  code :: int
  column_text :: "nat \<Rightarrow> string option"
  rowid :: int

datatype Severity = DEBUG | INFO | WARNING | ERROR | FATAL | UNKNOWN

text \<open>The messages the source logs, with the values inserted into them.\<close>

datatype message =
    Sleeping nat
  | Busy_preparing
  | Retry_prepare
  | Prepare_gave_up int
  | Prepare_unexpected int
  | Constraint_violation string
  | Unlock_gave_up int string
  | Was_locked int
  | Unknown_step_code int string
  | Unexpected_tables nat nat
  | Create_file_failed string
  | Open_failed string

text \<open>What the process does to the outside, in order.\<close>

datatype event =
    Log Severity message
  | Stderr string
  | Srand "32 word"
  | Sleep nat
  | Prepare string
  | Step
  | Finalize
  | Sqlite_exec string
  | Create_file string
  | Open_db string

text \<open>
  The world: the environment variables, the registered tables (the static members of
  \<^verbatim>\<open>DBObject\<close>), the answers the engine will give to the coming calls of
  \<^verbatim>\<open>sqlite3_prepare_v2\<close> and \<^verbatim>\<open>sqlite3_step\<close>, the clock, the process identifier, the
  C library's pseudo-random sequence (\<open>rand_seq s n\<close> is the \<open>n\<close>-th value
  \<^verbatim>\<open>rand\<close> returns after \<^verbatim>\<open>srand(s)\<close>; it is never negative), and the trace of
  events so far.
\<close>

record world =
  environ :: "string \<Rightarrow> string option"
  table_names :: "string list"
  create_tables :: "string list"
  prepares :: "prepare_answer list"
  steps :: "step_answer list"
  last_insert_rowid :: int
  file_exists :: bool
  fopen_ok :: bool
  sqlite3_open_rc :: int
  sqlite3_exec_rc :: "string \<Rightarrow> int"
  time_now :: "64 word"
  getpid :: "32 word"
  rand_seq :: "32 word \<Rightarrow> nat \<Rightarrow> nat"
  rand_seed :: "32 word"
  rand_drawn :: nat
  trace :: "event list"

text \<open>
  How a call ends: it returns a value, or the process exits (\<^verbatim>\<open>exit(1)\<close> in the
  destructor of a \<^verbatim>\<open>FATAL\<close> logger), or a signed counter would overflow (undefined
  behaviour in C), or the scripted answers of the engine are used up while the call
  still waits for one.
\<close>

datatype 'a outcome = Returns 'a world | Exits world | Undefined | Pending

definition emit :: "event \<Rightarrow> world \<Rightarrow> world" where
  "emit e w = w\<lparr>trace := trace w @ [e]\<rparr>"

text \<open>
  \<^verbatim>\<open>LOG(level) << ...\<close>: the message is recorded. A \<^verbatim>\<open>FATAL\<close> message ends the
  process (\<^verbatim>\<open>Logger::~Logger\<close>); the two functions below are the two cases. The
  logger's own time stamp (\<^verbatim>\<open>localtime\<close>, \<^verbatim>\<open>strftime\<close>) is taken to succeed.
\<close>

definition LOG :: "Severity \<Rightarrow> message \<Rightarrow> world \<Rightarrow> world" where
  "LOG level m w = emit (Log level m) w"

definition LOG_FATAL :: "message \<Rightarrow> world \<Rightarrow> 'a outcome" where
  "LOG_FATAL m w = Exits (emit (Log FATAL m) w)"

subsection \<open>Config\<close>

definition get_ash_env :: "string \<Rightarrow> world \<Rightarrow> string option" where
  "get_ash_env key w =
     (if take 8 key = ''ASH_CFG_'' then environ w key
      else environ w (''ASH_CFG_'' @ key))"

definition get_int :: "string \<Rightarrow> int \<Rightarrow> world \<Rightarrow> int" where
  "get_int key dv w = (case get_ash_env key w of Some env \<Rightarrow> atoi env | None \<Rightarrow> dv)"

subsection \<open>ash\_sleep\<close>

text \<open>
  The delay \<^verbatim>\<open>ms\<close> that \<^verbatim>\<open>ash_sleep\<close> computes, and the world after the generator
  has been used: only when \<^verbatim>\<open>random_ms > 0\<close> does the source call \<^verbatim>\<open>srand\<close> and
  \<^verbatim>\<open>rand\<close>. The seed is \<^verbatim>\<open>time(0) ^ getpid()\<close> converted to \<^verbatim>\<open>unsigned int\<close>.
\<close>

definition fail_ms :: "world \<Rightarrow> int" where
  "fail_ms w = (let v = get_int ''DB_FAIL_TIMEOUT'' (- 1) w in if v < 0 then 0 else v)"

definition random_ms :: "world \<Rightarrow> int" where
  "random_ms w = (let v = get_int ''DB_FAIL_RANDOM_TIMEOUT'' (- 1) w in if v < 0 then 0 else v)"

definition srand :: "32 word \<Rightarrow> world \<Rightarrow> world" where
  "srand s w = emit (Srand s) (w\<lparr>rand_seed := s, rand_drawn := 0\<rparr>)"

definition rand :: "world \<Rightarrow> nat \<times> world" where
  "rand w = (rand_seq w (rand_seed w) (rand_drawn w), w\<lparr>rand_drawn := Suc (rand_drawn w)\<rparr>)"

definition sleep_seed :: "world \<Rightarrow> 32 word" where
  "sleep_seed w = ucast (time_now w XOR scast (getpid w))"

definition sleep_ms :: "world \<Rightarrow> nat \<times> world" where
  "sleep_ms w =
     (let ms = nat (fail_ms w) in
      if random_ms w > 0 then
        (let (r, w1) = rand (srand (sleep_seed w) w)
         in (ms + r mod nat (random_ms w), w1))
      else (ms, w))"

text \<open>
  \<^verbatim>\<open>ash_sleep\<close>: the delay is logged; a delay of 0 returns at once; otherwise the
  process sleeps. The loop around \<^verbatim>\<open>clock_nanosleep\<close> and the measurement of the time
  slept depend on real time; the model records the delay asked for. No path of
  \<^verbatim>\<open>ash_sleep\<close> logs a \<^verbatim>\<open>FATAL\<close> message.
\<close>

definition ash_sleep :: "world \<Rightarrow> world" where
  "ash_sleep w =
     (let (ms, w1) = sleep_ms w;
          w2 = LOG INFO (Sleeping ms) w1
      in if ms = 0 then w2 else emit (Sleep ms) w2)"

subsection \<open>Database::prepare\_stmt\<close>

text \<open>
  The configured number of retries, as both \<^verbatim>\<open>prepare_stmt\<close> and \<^verbatim>\<open>exec\<close> read it:
  a value that is not positive becomes 5. Both then compute \<^verbatim>\<open>max_retries + 1\<close>, which
  overflows \<^verbatim>\<open>int\<close> at \<^verbatim>\<open>INT_MAX\<close>.
\<close>

definition max_retries :: "world \<Rightarrow> int" where
  "max_retries w = (let v = get_int ''DB_MAX_RETRIES'' (- 1) w in if v \<le> 0 then 5 else v)"

text \<open>
  The code from the label \<^verbatim>\<open>try_prepare\<close> on, over the answers the engine still has
  for \<^verbatim>\<open>sqlite3_prepare_v2\<close>. \<open>tries\<close> is the local counter; \<open>--tries > 0\<close> decides
  between another attempt after \<^verbatim>\<open>ash_sleep\<close> and the fatal message.
\<close>

fun try_prepare :: "string \<Rightarrow> int \<Rightarrow> int \<Rightarrow> prepare_answer list \<Rightarrow> world \<Rightarrow> stmt outcome" where
  "try_prepare query mr tries [] w = Pending"
| "try_prepare query mr tries (a # as) w =
     (let w1 = emit (Prepare query) (w\<lparr>prepares := as\<rparr>) in
      case a of
        Compiled ps \<Rightarrow> Returns ps w1
      | Refused error_code \<Rightarrow>
          if error_code = SQLITE_LOCKED \<or> error_code = SQLITE_BUSY then
            (let w2 = emit Finalize (LOG DEBUG Busy_preparing w1) in
             if tries - 1 > 0
             then try_prepare query mr (tries - 1) as (ash_sleep (LOG DEBUG Retry_prepare w2))
             else LOG_FATAL (Prepare_gave_up mr) w2)
          else LOG_FATAL (Prepare_unexpected error_code) w1)"

definition prepare_stmt :: "string \<Rightarrow> world \<Rightarrow> stmt outcome" where
  "prepare_stmt query w =
     (let mr = max_retries w in
      if mr \<ge> INT_MAX then Undefined
      else try_prepare query mr (mr + 1) (prepares w) w)"

subsection \<open>ResultSet and Database::exec\<close>

record ResultSet =
  headers :: "string list"
  data :: "string list list"
  rows :: nat
  columns :: nat

definition new_ResultSet :: "string list \<Rightarrow> string list list \<Rightarrow> ResultSet" where
  "new_ResultSet h d = \<lparr>headers = h, data = d, rows = length d, columns = length h\<rparr>"

text \<open>The two inner loops of the \<^verbatim>\<open>SQLITE_ROW\<close> arm, over the columns \<open>0 .. columns - 1\<close>.\<close>

definition fetch_headers :: "stmt \<Rightarrow> nat \<Rightarrow> string list" where
  "fetch_headers ps cols = map (column_name ps) [0..<cols]"

definition fetch_row :: "step_answer \<Rightarrow> nat \<Rightarrow> string list" where
  "fetch_row a cols =
     map (\<lambda>c. case column_text a c of Some t \<Rightarrow> t | None \<Rightarrow> []) [0..<cols]"

text \<open>
  The code after the label \<^verbatim>\<open>finalize\<close>. \<open>nrows\<close> is the loop counter \<^verbatim>\<open>rows\<close>,
  \<open>rest\<close> the answers the engine has not been asked for.
\<close>

definition finalize ::
  "bool \<Rightarrow> nat \<Rightarrow> string list \<Rightarrow> string list list \<Rightarrow> step_answer list \<Rightarrow> world \<Rightarrow>
   ResultSet option outcome" where
  "finalize reverse nrows hs results rest w =
     (let w1 = emit Finalize (w\<lparr>steps := rest\<rparr>);
          results1 = (if reverse \<and> nrows \<noteq> 0 then rev results else results)
      in Returns (if nrows \<noteq> 0 then Some (new_ResultSet hs results1) else None) w1)"

text \<open>
  The \<^verbatim>\<open>for\<close> loop of \<^verbatim>\<open>Database::exec\<close>, over the answers of \<^verbatim>\<open>sqlite3_step\<close>.
  The arguments are the locals of \<^verbatim>\<open>exec\<close>: \<open>mr\<close> is \<^verbatim>\<open>max_retries\<close>, \<open>cols\<close> is
  \<^verbatim>\<open>columns\<close> (read once, before the label \<^verbatim>\<open>try_sql\<close>), then \<^verbatim>\<open>tries\<close>,
  \<^verbatim>\<open>fetched\<close>, \<^verbatim>\<open>rows\<close> (an \<^verbatim>\<open>unsigned int\<close>, so it wraps at \<open>2 ^ 32\<close>),
  \<^verbatim>\<open>headers\<close>, \<^verbatim>\<open>results\<close> and \<^verbatim>\<open>ps\<close>. The jump back to \<^verbatim>\<open>try_sql\<close> in the
  contention arm is the recursive call with \<^verbatim>\<open>fetched\<close> and \<^verbatim>\<open>rows\<close> at 0; the
  source leaves \<^verbatim>\<open>headers\<close> and \<^verbatim>\<open>results\<close> as they are there. \<^verbatim>\<open>++fetched\<close> at
  \<^verbatim>\<open>INT_MAX\<close> is a signed overflow.
\<close>

fun step_loop ::
  "string \<Rightarrow> int \<Rightarrow> bool \<Rightarrow> int \<Rightarrow> nat \<Rightarrow> int \<Rightarrow> int \<Rightarrow> nat \<Rightarrow> string list \<Rightarrow>
   string list list \<Rightarrow> stmt \<Rightarrow> step_answer list \<Rightarrow> world \<Rightarrow> ResultSet option outcome" where
  "step_loop query limit reverse mr cols tries fetched nrows hs results ps [] w =
     (if fetched < limit \<or> limit \<le> 0 then Pending
      else finalize reverse nrows hs results [] w)"
| "step_loop query limit reverse mr cols tries fetched nrows hs results ps (a # as) w =
     (if fetched < limit \<or> limit \<le> 0 then
        (let w1 = emit Step (w\<lparr>last_insert_rowid := rowid a\<rparr>);
             result = code a
         in
           if result = SQLITE_ROW then
             (let hs1 = (if hs = [] then fetch_headers ps cols else hs);
                  results1 = results @ [fetch_row a cols]
              in if fetched = INT_MAX then Undefined
                 else step_loop query limit reverse mr cols tries (fetched + 1)
                        ((nrows + 1) mod 2 ^ 32) hs1 results1 ps as w1)
           else if result = SQLITE_CONSTRAINT then
             finalize reverse nrows hs results as (LOG DEBUG (Constraint_violation query) w1)
           else if result = SQLITE_DONE then
             finalize reverse nrows hs results as w1
           else if result = SQLITE_LOCKED \<or> result = SQLITE_BUSY then
             (if tries \<le> 0 then LOG_FATAL (Unlock_gave_up mr query) (w1\<lparr>steps := as\<rparr>)
              else
                (case prepare_stmt query (emit Finalize (ash_sleep w1)) of
                   Returns ps1 w2 \<Rightarrow>
                     step_loop query limit reverse mr cols (tries - 1) 0 0 hs results ps1 as
                       (LOG WARNING (Was_locked (tries - 1)) w2)
                 | Exits w2 \<Rightarrow> Exits (w2\<lparr>steps := as\<rparr>)
                 | Undefined \<Rightarrow> Undefined
                 | Pending \<Rightarrow> Pending))
           else
             LOG_FATAL (Unknown_step_code result query)
               (emit (Stderr ''unknown sqlite3_step code'') (emit Finalize (w1\<lparr>steps := as\<rparr>))))
      else finalize reverse nrows hs results (a # as) w)"

text \<open>
  \<^verbatim>\<open>Database::exec\<close>: the configured retries, the first \<^verbatim>\<open>prepare_stmt\<close>, the column
  count, and the loop from \<^verbatim>\<open>try_sql\<close> with empty \<^verbatim>\<open>headers\<close> and \<^verbatim>\<open>results\<close>.
\<close>

definition exec :: "string \<Rightarrow> int \<Rightarrow> bool \<Rightarrow> world \<Rightarrow> ResultSet option outcome" where
  "exec query limit reverse w =
     (let mr = max_retries w in
      if mr \<ge> INT_MAX then Undefined
      else
        (case prepare_stmt query w of
           Returns ps w1 \<Rightarrow>
             step_loop query limit reverse mr (column_count ps) (mr + 1) 0 0 [] [] ps (steps w1) w1
         | Exits w1 \<Rightarrow> Exits w1
         | Undefined \<Rightarrow> Undefined
         | Pending \<Rightarrow> Pending))"

text \<open>What a caller or an observer sees of an outcome.\<close>

fun returned :: "'a outcome \<Rightarrow> 'a option" where
  "returned (Returns x w) = Some x"
| "returned (Exits w) = None"
| "returned Undefined = None"
| "returned Pending = None"


datatype 'a verdict = Returned 'a | Exited | Overflowed | Waiting

fun verdict_of :: "'a outcome \<Rightarrow> 'a verdict" where
  "verdict_of (Returns x w) = Returned x"
| "verdict_of (Exits w) = Exited"
| "verdict_of Undefined = Overflowed"
| "verdict_of Pending = Waiting"

subsection \<open>DBObject and Database::insert\<close>

text \<open>
  A persistable object: what the virtual \<^verbatim>\<open>get_name\<close> returns, and the member
  \<^verbatim>\<open>values\<close> (a \<^verbatim>\<open>std::map\<close>) as the list of its entries in iteration order.
\<close>

record DBObject =
  get_name :: string
  db_values :: "(string \<times> string) list"

text \<open>The shape of both loops of \<^verbatim>\<open>get_sql\<close>, and of the table list in the constructor.\<close>

fun join_comma :: "string list \<Rightarrow> string" where
  "join_comma [] = []"
| "join_comma [x] = x"
| "join_comma (x # y # ys) = x @ '', '' @ join_comma (y # ys)"

definition get_sql :: "DBObject \<Rightarrow> string" where
  "get_sql obj =
     ''INSERT INTO '' @ get_name obj @ '' ('' @ join_comma (map fst (db_values obj)) @
     '') VALUES ('' @ join_comma (map snd (db_values obj)) @ ''); ''"

text \<open>
  \<^verbatim>\<open>Database::insert\<close>; \<open>None\<close> is the null pointer. The call of \<^verbatim>\<open>exec\<close> uses the
  declared default \<^verbatim>\<open>limit = 0\<close>; its result is dropped, so the order of the rows does
  not matter.
\<close>

definition insert_obj :: "DBObject option \<Rightarrow> world \<Rightarrow> int outcome" where
  "insert_obj object w =
     (case object of
        None \<Rightarrow> Returns 0 w
      | Some obj \<Rightarrow>
          (case exec (get_sql obj) 0 False w of
             Returns rs w1 \<Rightarrow> Returns (last_insert_rowid w1) w1
           | Exits w1 \<Rightarrow> Exits w1
           | Undefined \<Rightarrow> Undefined
           | Pending \<Rightarrow> Pending))"

subsection \<open>The constructor of Database and init\_db\<close>

definition register_table :: "string \<Rightarrow> string \<Rightarrow> world \<Rightarrow> world" where
  "register_table name sql w =
     w\<lparr>table_names := table_names w @ [name], create_tables := create_tables w @ [sql]\<rparr>"







subsection \<open>Observations on the trace\<close>

text \<open>
  How often the process has gone to \<^verbatim>\<open>ash_sleep\<close> and how often it has called
  \<^verbatim>\<open>sqlite3_prepare_v2\<close>; the two result codes the source treats as contention; and
  what \<open>n\<close> failed attempts of \<^verbatim>\<open>prepare_stmt\<close> change in the world.
\<close>

fun is_sleeping :: "event \<Rightarrow> bool" where
  "is_sleeping (Log INFO (Sleeping ms)) = True"
| "is_sleeping e = False"

fun is_prepare :: "event \<Rightarrow> bool" where
  "is_prepare (Prepare q) = True"
| "is_prepare e = False"

definition sleeps :: "world \<Rightarrow> nat" where
  "sleeps w = length (filter is_sleeping (trace w))"

definition prepare_calls :: "world \<Rightarrow> nat" where
  "prepare_calls w = length (filter is_prepare (trace w))"



subsection \<open>Runs of the stepping loop\<close>

text \<open>
  An answer that delivers a row; the world after the loop has stepped through a list
  of answers; and the value of \<^verbatim>\<open>headers\<close> after the \<^verbatim>\<open>SQLITE_ROW\<close> arm has run.
\<close>

definition is_row :: "step_answer \<Rightarrow> bool" where
  "is_row a = (code a = SQLITE_ROW)"

fun stepped :: "step_answer list \<Rightarrow> world \<Rightarrow> world" where
  "stepped [] w = w"
| "stepped (a # as) w = stepped as (emit Step (w\<lparr>last_insert_rowid := rowid a\<rparr>))"

definition headers_after :: "stmt \<Rightarrow> nat \<Rightarrow> string list \<Rightarrow> string list" where
  "headers_after ps cols hs = (if hs = [] then fetch_headers ps cols else hs)"

subsection \<open>Comparing runs and results\<close>

text \<open>
  An outcome with the pending step answers replaced; two outcomes that a caller and the
  engine cannot tell apart (same value, same statements prepared, same number of
  answers left, same sleeps); the invariant of a \<^verbatim>\<open>ResultSet\<close>; and the invariant of
  the buffers \<^verbatim>\<open>headers\<close> and \<^verbatim>\<open>results\<close> inside the loop of \<^verbatim>\<open>exec\<close>.
\<close>

fun with_steps :: "step_answer list \<Rightarrow> 'a outcome \<Rightarrow> 'a outcome" where
  "with_steps s (Returns x w) = Returns x (w\<lparr>steps := s\<rparr>)"
| "with_steps s (Exits w) = Exits (w\<lparr>steps := s\<rparr>)"
| "with_steps s Undefined = Undefined"
| "with_steps s Pending = Pending"

fun same_run :: "'a outcome \<Rightarrow> 'a outcome \<Rightarrow> bool" where
  "same_run (Returns x w) (Returns y v) =
     (x = y \<and> prepares w = prepares v \<and> length (steps w) = length (steps v) \<and>
      last_insert_rowid w = last_insert_rowid v \<and> sleeps w = sleeps v \<and>
      prepare_calls w = prepare_calls v)"
| "same_run (Exits w) (Exits v) =
     (prepares w = prepares v \<and> length (steps w) = length (steps v) \<and>
      last_insert_rowid w = last_insert_rowid v \<and> sleeps w = sleeps v \<and>
      prepare_calls w = prepare_calls v)"
| "same_run Undefined Undefined = True"
| "same_run Pending Pending = True"
| "same_run a b = False"

definition well_formed :: "ResultSet \<Rightarrow> bool" where
  "well_formed rs =
     (rows rs = length (data rs) \<and> columns rs = length (headers rs) \<and>
      list_all (\<lambda>r. length r = columns rs) (data rs))"

definition buffer_ok :: "nat \<Rightarrow> nat \<Rightarrow> string list \<Rightarrow> string list list \<Rightarrow> bool" where
  "buffer_ok cols n hs acc =
     ((hs = [] \<or> length hs = cols) \<and> (acc = [] \<or> length hs = cols) \<and>
      list_all (\<lambda>r. length r = cols) acc \<and> (n = 0 \<or> acc \<noteq> []))"

subsection \<open>Concrete worlds\<close>

text \<open>
  A world with no configuration in the environment, an existing database file and an
  engine that has not been given any answers yet; and small statements and answers to
  put into it.
\<close>

definition idle_world :: world where
  "idle_world =
     \<lparr>environ = (\<lambda>k. None), table_names = [], create_tables = [], prepares = [],
      steps = [], last_insert_rowid = 0, file_exists = True, fopen_ok = True,
      sqlite3_open_rc = 0, sqlite3_exec_rc = (\<lambda>sql. 0), time_now = 0, getpid = 0,
      rand_seq = (\<lambda>s n. 0), rand_seed = 0, rand_drawn = 0, trace = []\<rparr>"

definition one_column :: stmt where
  "one_column = \<lparr>column_count = 1, column_name = (\<lambda>c. ''n'')\<rparr>"

definition row_of :: "string \<Rightarrow> step_answer" where
  "row_of s = \<lparr>code = SQLITE_ROW, column_text = (\<lambda>c. Some s), rowid = 0\<rparr>"

definition answer :: "int \<Rightarrow> step_answer" where
  "answer c = \<lparr>code = c, column_text = (\<lambda>c. None), rowid = 0\<rparr>"

definition done_with_rowid :: "int \<Rightarrow> step_answer" where
  "done_with_rowid i = \<lparr>code = SQLITE_DONE, column_text = (\<lambda>c. None), rowid = i\<rparr>"

definition sample_object :: DBObject where
  "sample_object = \<lparr>get_name = ''commands'', db_values = [(''rval'', ''0''), (''tty'', ''null'')]\<rparr>"





section \<open>Properties\<close>

text \<open>The definitions to unfold when a run on a concrete world is evaluated.\<close>

lemmas run_defs =
  exec_def prepare_stmt_def max_retries_def get_int_def get_ash_env_def idle_world_def
  one_column_def row_of_def answer_def emit_def LOG_def LOG_FATAL_def finalize_def
  new_ResultSet_def fetch_headers_def fetch_row_def ash_sleep_def sleep_ms_def fail_ms_def
  random_ms_def Let_def

subsection \<open>Quoting\<close>

lemma isprint_quote: "isprint (CHR 0x27)"
  by (simp add: isprint_def)

lemma quote_loop_concat:
  "quote_loop s out = out @ concat (map quote_spec_char s)"
  by (induction s arbitrary: out) (simp_all add: quote_spec_char_def isprint_quote Let_def)

text \<open>
  C5. \<^verbatim>\<open>DBObject::quote\<close> computes what the specification describes: the empty string
  becomes the unquoted keyword \<open>null\<close>; any other string is wrapped in single quotes,
  with every single quote doubled, every non-printable character dropped, and tab and
  newline kept as they are. In particular \<open>it's\<close> becomes \<open>'it''s'\<close>.
\<close>

theorem quote_refines_spec:
  "quote s = quote_spec s \<and>
   quote [] = ''null'' \<and>
   quote [CHR ''i'', CHR ''t'', CHR 0x27, CHR ''s''] =
     [CHR 0x27, CHR ''i'', CHR ''t'', CHR 0x27, CHR 0x27, CHR ''s'', CHR 0x27]"
  by (simp add: quote_def quote_spec_def quote_loop_concat quote_spec_char_def isprint_def)

subsection \<open>Preparing a statement\<close>

lemma ash_sleep_frame [simp]:
  "environ (ash_sleep w) = environ w"
  "prepares (ash_sleep w) = prepares w"
  "steps (ash_sleep w) = steps w"
  "last_insert_rowid (ash_sleep w) = last_insert_rowid w"
  "table_names (ash_sleep w) = table_names w"
  "create_tables (ash_sleep w) = create_tables w"
  by (simp_all add: ash_sleep_def sleep_ms_def srand_def rand_def emit_def LOG_def Let_def)

lemma ash_sleep_counts [simp]:
  "sleeps (ash_sleep w) = Suc (sleeps w)"
  "prepare_calls (ash_sleep w) = prepare_calls w"
  by (simp_all add: sleeps_def prepare_calls_def ash_sleep_def sleep_ms_def srand_def rand_def
      emit_def LOG_def Let_def)

lemma emit_frame [simp]:
  "environ (emit e w) = environ w"
  "prepares (emit e w) = prepares w"
  "steps (emit e w) = steps w"
  "last_insert_rowid (emit e w) = last_insert_rowid w"
  "table_names (emit e w) = table_names w"
  "create_tables (emit e w) = create_tables w"
  "trace (emit e w) = trace w @ [e]"
  by (simp_all add: emit_def)

lemma emit_counts [simp]:
  "sleeps (emit e w) = (if is_sleeping e then Suc (sleeps w) else sleeps w)"
  "prepare_calls (emit e w) = (if is_prepare e then Suc (prepare_calls w) else prepare_calls w)"
  by (simp_all add: sleeps_def prepare_calls_def emit_def)

lemma counts_prepares_update [simp]:
  "sleeps (w\<lparr>prepares := p\<rparr>) = sleeps w"
  "prepare_calls (w\<lparr>prepares := p\<rparr>) = prepare_calls w"
  by (simp_all add: sleeps_def prepare_calls_def)









subsection \<open>Stepping without contention\<close>

lemma headers_after_idem [simp]:
  "headers_after ps cols (headers_after ps cols hs) = headers_after ps cols hs"
  by (simp add: headers_after_def)

lemma stepped_frame [simp]:
  "environ (stepped rs w) = environ w"
  "prepares (stepped rs w) = prepares w"
  "steps (stepped rs w) = steps w"
  "table_names (stepped rs w) = table_names w"
  "create_tables (stepped rs w) = create_tables w"
  "trace (stepped rs w) = trace w @ replicate (length rs) Step"
  by (induction rs arbitrary: w; simp add: emit_def replicate_append_same)+

lemma stepped_rowid:
  "last_insert_rowid (stepped rs w) = (if rs = [] then last_insert_rowid w else rowid (last rs))"
  by (induction rs arbitrary: w) (simp_all add: emit_def)

lemma step_loop_rows:
  "list_all is_row rs \<Longrightarrow> limit \<le> 0 \<or> f + int (length rs) \<le> limit \<Longrightarrow>
   f + int (length rs) \<le> INT_MAX \<Longrightarrow> 0 \<le> f \<Longrightarrow>
   step_loop q limit rv mr cols tries f (nat f) hs acc ps (rs @ rest) w =
   step_loop q limit rv mr cols tries (f + int (length rs)) (nat (f + int (length rs)))
     (if rs = [] then hs else headers_after ps cols hs)
     (acc @ map (\<lambda>a. fetch_row a cols) rs) ps rest (stepped rs w)"
proof (induction rs arbitrary: f hs acc w)
  case Nil
  then show ?case by simp
next
  case (Cons a rs)
  from Cons.prems have rs: "list_all is_row rs" by simp
  from Cons.prems have row: "code a = SQLITE_ROW" by (simp add: is_row_def)
  from Cons.prems have cond: "f < limit \<or> limit \<le> 0" and nomax: "f \<noteq> INT_MAX"
    and lim': "limit \<le> 0 \<or> (f + 1) + int (length rs) \<le> limit"
    and max': "(f + 1) + int (length rs) \<le> INT_MAX" and f': "0 \<le> f + 1"
    by auto
  have wrap: "(nat f + 1) mod 2 ^ 32 = nat (f + 1)"
    using Cons.prems(3,4) by (simp add: nat_add_distrib)
  have "step_loop q limit rv mr cols tries f (nat f) hs acc ps ((a # rs) @ rest) w =
        step_loop q limit rv mr cols tries (f + 1) (nat (f + 1)) (headers_after ps cols hs)
          (acc @ [fetch_row a cols]) ps (rs @ rest) (emit Step (w\<lparr>last_insert_rowid := rowid a\<rparr>))"
    using cond row nomax wrap by (simp add: Let_def headers_after_def)
  also have "\<dots> = step_loop q limit rv mr cols tries (f + 1 + int (length rs))
       (nat (f + 1 + int (length rs)))
       (if rs = [] then headers_after ps cols hs else headers_after ps cols (headers_after ps cols hs))
       ((acc @ [fetch_row a cols]) @ map (\<lambda>a. fetch_row a cols) rs) ps rest
       (stepped rs (emit Step (w\<lparr>last_insert_rowid := rowid a\<rparr>)))"
    by (rule Cons.IH [OF rs lim' max' f'])
  finally show ?case by (simp del: step_loop.simps add: ac_simps)
qed

lemma step_loop_limit_reached:
  "0 < limit \<Longrightarrow> limit \<le> f \<Longrightarrow>
   step_loop q limit rv mr cols tries f n hs acc ps script w = finalize rv n hs acc script w"
  by (cases script) simp_all

lemma step_loop_done:
  "code d = SQLITE_DONE \<Longrightarrow> f < limit \<or> limit \<le> 0 \<Longrightarrow>
   step_loop q limit rv mr cols tries f n hs acc ps (d # rest) w =
   finalize rv n hs acc rest (emit Step (w\<lparr>last_insert_rowid := rowid d\<rparr>))"
  by (simp add: Let_def)

lemma step_loop_constraint:
  "code d = SQLITE_CONSTRAINT \<Longrightarrow> f < limit \<or> limit \<le> 0 \<Longrightarrow>
   step_loop q limit rv mr cols tries f n hs acc ps (d # rest) w =
   finalize rv n hs acc rest
     (LOG DEBUG (Constraint_violation q) (emit Step (w\<lparr>last_insert_rowid := rowid d\<rparr>)))"
  by (simp add: Let_def)

lemma prepare_stmt_compiled:
  "max_retries w < INT_MAX \<Longrightarrow> prepares w = Compiled ps # prest \<Longrightarrow>
   prepare_stmt q w = Returns ps (emit (Prepare q) (w\<lparr>prepares := prest\<rparr>))"
  by (simp add: prepare_stmt_def Let_def)


lemma finalize_frame:
  "finalize rv n hs acc rest w =
   Returns (if n \<noteq> 0 then Some (new_ResultSet hs (if rv then rev acc else acc)) else None)
     (emit Finalize (w\<lparr>steps := rest\<rparr>))"
  by (simp add: finalize_def Let_def)

text \<open>
  A query whose stepping delivers the rows \<open>rs\<close> and then reports completion, with no
  contention on the way: with \<open>limit > 0\<close> the loop stops after \<open>limit\<close> rows and
  does not ask the engine again; with \<open>limit \<le> 0\<close> it collects every row; the
  reversal acts on the rows collected; and the result is a \<^verbatim>\<open>ResultSet\<close> exactly when
  a row was collected.
\<close>

lemma exec_limit_reverse:
  assumes "max_retries w < INT_MAX" and "prepares w = Compiled ps # prest"
    and "steps w = rs @ d # rest" and "list_all is_row rs" and "code d = SQLITE_DONE"
    and "int (length rs) \<le> INT_MAX"
  shows "\<exists>w'. exec q limit reverse w =
           Returns
             (let taken = (if limit > 0 then take (nat limit) rs else rs);
                  cells = map (\<lambda>a. fetch_row a (column_count ps)) taken
              in if taken = [] then None
                 else Some (new_ResultSet (fetch_headers ps (column_count ps))
                        (if reverse then rev cells else cells))) w' \<and>
         steps w' = (if limit > 0 \<and> nat limit \<le> length rs
                     then drop (nat limit) rs @ d # rest else rest) \<and>
         prepares w' = prest"
proof -
  define cols where "cols = column_count ps"
  define w1 where "w1 = emit (Prepare q) (w\<lparr>prepares := prest\<rparr>)"
  have start: "exec q limit reverse w =
      step_loop q limit reverse (max_retries w) cols (max_retries w + 1) 0 (nat 0) [] [] ps
        (rs @ d # rest) w1"
    using assms(1,3) prepare_stmt_compiled [OF assms(1,2), of q]
    by (simp add: exec_def Let_def cols_def w1_def)
  show ?thesis
  proof (cases "limit > 0 \<and> nat limit \<le> length rs")
    case True
    define k where "k = nat limit"
    have k: "int k = limit" "k \<le> length rs" "0 < k" using True by (simp_all add: k_def)
    have split: "rs @ d # rest = take k rs @ (drop k rs @ d # rest)" by simp
    have rows: "list_all is_row (take k rs)"
      using assms(4) by (simp add: list_all_iff) (meson in_set_takeD)
    have len: "length (take k rs) = k" using k by simp
    have "step_loop q limit reverse (max_retries w) cols (max_retries w + 1) 0 (nat 0) [] [] ps
        (take k rs @ (drop k rs @ d # rest)) w1 =
      step_loop q limit reverse (max_retries w) cols (max_retries w + 1)
        (0 + int (length (take k rs))) (nat (0 + int (length (take k rs))))
        (if take k rs = [] then [] else headers_after ps cols [])
        ([] @ map (\<lambda>a. fetch_row a cols) (take k rs)) ps (drop k rs @ d # rest)
        (stepped (take k rs) w1)"
      by (rule step_loop_rows [OF rows]) (use k assms(6) len in simp_all)
    also have "\<dots> = finalize reverse k (headers_after ps cols [])
        (map (\<lambda>a. fetch_row a cols) (take k rs)) (drop k rs @ d # rest) (stepped (take k rs) w1)"
    proof -
      have ne: "take k rs \<noteq> []" using k by auto
      have n: "nat (0 + int (length (take k rs))) = k" using len by simp
      have reach: "0 < limit" "limit \<le> 0 + int (length (take k rs))" using k len by simp_all
      show ?thesis
        unfolding step_loop_limit_reached [OF reach] n using ne by simp
    qed
    finally have "exec q limit reverse w = finalize reverse k (headers_after ps cols [])
        (map (\<lambda>a. fetch_row a cols) (take k rs)) (drop k rs @ d # rest) (stepped (take k rs) w1)"
      using start split by simp
    moreover have "take k rs \<noteq> []" using k by auto
    ultimately show ?thesis
      using True k
      by (simp add: finalize_frame Let_def headers_after_def cols_def k_def rev_map w1_def emit_def)
  next
    case False
    then have lim: "limit \<le> 0 \<or> 0 + int (length rs) \<le> limit" by auto
    from False have cond: "int (length rs) < limit \<or> limit \<le> 0" by auto
    have tk: "(if limit > 0 then take (nat limit) rs else rs) = rs" using False by auto
    have "step_loop q limit reverse (max_retries w) cols (max_retries w + 1) 0 (nat 0) [] [] ps
        (rs @ d # rest) w1 =
      step_loop q limit reverse (max_retries w) cols (max_retries w + 1)
        (0 + int (length rs)) (nat (0 + int (length rs)))
        (if rs = [] then [] else headers_after ps cols [])
        ([] @ map (\<lambda>a. fetch_row a cols) rs) ps (d # rest) (stepped rs w1)"
      by (rule step_loop_rows [OF assms(4) lim]) (use assms(6) in simp_all)
    also have "\<dots> = finalize reverse (length rs) (if rs = [] then [] else headers_after ps cols [])
        (map (\<lambda>a. fetch_row a cols) rs) rest
        (emit Step ((stepped rs w1)\<lparr>last_insert_rowid := rowid d\<rparr>))"
      using cond assms(5) by (simp add: step_loop_done)
    finally have "exec q limit reverse w =
      finalize reverse (length rs) (if rs = [] then [] else headers_after ps cols [])
        (map (\<lambda>a. fetch_row a cols) rs) rest
        (emit Step ((stepped rs w1)\<lparr>last_insert_rowid := rowid d\<rparr>))"
      using start by simp
    then show ?thesis
      using False tk
      by (simp add: finalize_frame Let_def headers_after_def cols_def rev_map w1_def emit_def)
  qed
qed

lemma exec_limit_reverse_example:
  "max_retries (idle_world\<lparr>prepares := [Compiled one_column],
      steps := [row_of ''1'', row_of ''2'', row_of ''3'', row_of ''4'', row_of ''5'',
                answer SQLITE_DONE]\<rparr>) < INT_MAX \<and>
   list_all is_row [row_of ''1'', row_of ''2'', row_of ''3'', row_of ''4'', row_of ''5''] \<and>
   returned (exec ''q'' 2 True (idle_world\<lparr>prepares := [Compiled one_column],
      steps := [row_of ''1'', row_of ''2'', row_of ''3'', row_of ''4'', row_of ''5'',
                answer SQLITE_DONE]\<rparr>)) =
     Some (Some \<lparr>headers = [''n''], data = [[''2''], [''1'']], rows = 2, columns = 1\<rparr>)"
  using exec_limit_reverse [where w = "idle_world\<lparr>prepares := [Compiled one_column],
      steps := [row_of ''1'', row_of ''2'', row_of ''3'', row_of ''4'', row_of ''5'',
                answer SQLITE_DONE]\<rparr>" and ps = one_column and prest = "[]"
      and rs = "[row_of ''1'', row_of ''2'', row_of ''3'', row_of ''4'', row_of ''5'']"
      and d = "answer SQLITE_DONE" and rest = "[]" and q = "''q''" and limit = 2 and reverse = True]
  by (auto simp: max_retries_def get_int_def get_ash_env_def idle_world_def is_row_def row_of_def
      answer_def one_column_def new_ResultSet_def fetch_headers_def fetch_row_def Let_def
      numeral_2_eq_2)

subsection \<open>A constraint violation while stepping\<close>





lemma max_retries_steps [simp]: "max_retries (w\<lparr>steps := s\<rparr>) = max_retries w"
  by (simp add: max_retries_def get_int_def get_ash_env_def)






lemma counts_steps_update [simp]:
  "sleeps (w\<lparr>steps := s\<rparr>) = sleeps w"
  "prepare_calls (w\<lparr>steps := s\<rparr>) = prepare_calls w"
  by (simp_all add: sleeps_def prepare_calls_def)

lemma same_run_with_steps:
  "length s = length t \<Longrightarrow> same_run (with_steps s out) (with_steps t out)"
  by (cases out) simp_all




lemma same_run_refl_steps:
  "length s = length t \<Longrightarrow> same_run (Exits (w\<lparr>steps := s\<rparr>) :: 'a outcome) (Exits (w\<lparr>steps := t\<rparr>))"
  by simp





subsection \<open>The invariant of every ResultSet\<close>

lemma finalize_well_formed:
  "buffer_ok cols n hs acc \<Longrightarrow> finalize rv n hs acc rest w = Returns (Some rs) w' \<Longrightarrow>
   well_formed rs \<and> data rs \<noteq> []"
  by (auto simp: finalize_def Let_def buffer_ok_def well_formed_def new_ResultSet_def
      list_all_iff split: if_splits)

lemma buffer_ok_row:
  "buffer_ok cols n hs acc \<Longrightarrow>
   buffer_ok cols m (if hs = [] then fetch_headers ps cols else hs) (acc @ [fetch_row a cols])"
  by (auto simp: buffer_ok_def fetch_headers_def fetch_row_def)

lemma buffer_ok_retry: "buffer_ok cols n hs acc \<Longrightarrow> buffer_ok cols 0 hs acc"
  by (simp add: buffer_ok_def)

lemma step_loop_well_formed:
  "buffer_ok cols n hs acc \<Longrightarrow>
   step_loop q limit rv mr cols tries f n hs acc ps script w = Returns (Some rs) w' \<Longrightarrow>
   well_formed rs \<and> data rs \<noteq> []"
proof (induction script arbitrary: tries f n hs acc ps w)
  case Nil
  then show ?case by (auto split: if_splits dest: finalize_well_formed)
next
  case (Cons a as)
  define w1 where "w1 = emit Step (w\<lparr>last_insert_rowid := rowid a\<rparr>)"
  note run = Cons.prems(2) [unfolded step_loop.simps(2) Let_def w1_def [symmetric]]
  show ?case
  proof (cases "f < limit \<or> limit \<le> 0")
    case False
    with run Cons.prems(1) show ?thesis by (auto dest: finalize_well_formed)
  next
    case cond: True
    consider (row) "code a = SQLITE_ROW" | (violation) "code a = SQLITE_CONSTRAINT"
      | (complete) "code a = SQLITE_DONE" | (busy) "code a = SQLITE_LOCKED \<or> code a = SQLITE_BUSY"
      | (other) "code a \<noteq> SQLITE_ROW" "code a \<noteq> SQLITE_CONSTRAINT" "code a \<noteq> SQLITE_DONE"
          "code a \<noteq> SQLITE_LOCKED" "code a \<noteq> SQLITE_BUSY"
      by blast
    then show ?thesis
    proof cases
      case row
      with run cond have
        "step_loop q limit rv mr cols tries (f + 1) ((n + 1) mod 2 ^ 32)
           (if hs = [] then fetch_headers ps cols else hs) (acc @ [fetch_row a cols]) ps as w1 =
         Returns (Some rs) w'"
        by (simp split: if_splits)
      from Cons.IH [OF buffer_ok_row [OF Cons.prems(1)] this] show ?thesis .
    next
      case violation
      with run cond Cons.prems(1) show ?thesis by (auto dest: finalize_well_formed)
    next
      case complete
      with run cond Cons.prems(1) show ?thesis by (auto dest: finalize_well_formed)
    next
      case busy
      with run cond obtain ps1 w2 where
        "step_loop q limit rv mr cols (tries - 1) 0 0 hs acc ps1 as
           (LOG WARNING (Was_locked (tries - 1)) w2) = Returns (Some rs) w'"
        by (auto simp: LOG_FATAL_def split: if_splits outcome.splits)
      from Cons.IH [OF buffer_ok_retry [OF Cons.prems(1)] this] show ?thesis .
    next
      case other
      with run cond show ?thesis by (simp add: LOG_FATAL_def)
    qed
  qed
qed

text \<open>
  C8. Every \<^verbatim>\<open>ResultSet\<close> that \<^verbatim>\<open>Database::exec\<close> returns, on any answers of the
  engine, has \<open>rows\<close> equal to the number of rows in \<open>data\<close>, \<open>columns\<close> equal to
  the number of \<open>headers\<close>, exactly \<open>columns\<close> cells in every row, and at least one
  row: a result without rows is the null result. The fields are \<^verbatim>\<open>const\<close> in the
  source and the record is a value here.
\<close>

theorem exec_result_well_formed:
  assumes "exec q limit reverse w = Returns (Some rs) w'"
  shows "rows rs = length (data rs) \<and> columns rs = length (headers rs) \<and>
         list_all (\<lambda>r. length r = columns rs) (data rs) \<and> data rs \<noteq> [] \<and> 0 < rows rs"
proof -
  have start: "buffer_ok cols 0 [] []" for cols by (simp add: buffer_ok_def)
  from assms obtain ps w1 where
    "step_loop q limit reverse (max_retries w) (column_count ps) (max_retries w + 1) 0 0 [] [] ps
       (steps w1) w1 = Returns (Some rs) w'"
    by (auto simp: exec_def Let_def split: if_splits outcome.splits)
  from step_loop_well_formed [OF start this] show ?thesis
    by (auto simp: well_formed_def)
qed

theorem exec_result_well_formed_witness:
  "exec ''q'' 0 True (idle_world\<lparr>prepares := [Compiled one_column, Compiled one_column],
       steps := [row_of ''x'', answer SQLITE_LOCKED, row_of ''x'', row_of ''y'', answer SQLITE_DONE]\<rparr>) =
     Returns (Some \<lparr>headers = [''n''], data = [[''y''], [''x''], [''x'']], rows = 3, columns = 1\<rparr>)
       (idle_world\<lparr>trace := [Prepare ''q'', Step, Step, Log INFO (Sleeping 0), Finalize, Prepare ''q'',
          Log WARNING (Was_locked 5), Step, Step, Step, Finalize]\<rparr>) \<and>
   rows \<lparr>headers = [''n''], data = [[''y''], [''x''], [''x'']], rows = 3, columns = 1\<rparr> =
     length (data \<lparr>headers = [''n''], data = [[''y''], [''x''], [''x'']], rows = 3, columns = 1\<rparr>)"
proof -
  have run: "exec ''q'' 0 True (idle_world\<lparr>prepares := [Compiled one_column, Compiled one_column],
       steps := [row_of ''x'', answer SQLITE_LOCKED, row_of ''x'', row_of ''y'', answer SQLITE_DONE]\<rparr>) =
     Returns (Some \<lparr>headers = [''n''], data = [[''y''], [''x''], [''x'']], rows = 3, columns = 1\<rparr>)
       (idle_world\<lparr>trace := [Prepare ''q'', Step, Step, Log INFO (Sleeping 0), Finalize, Prepare ''q'',
          Log WARNING (Was_locked 5), Step, Step, Step, Finalize]\<rparr>)"
    by (simp add: run_defs)
  from exec_result_well_formed [OF run] show ?thesis using run by simp
qed

subsection \<open>Contention while stepping\<close>

text \<open>
  C1. The engine delivers the row \<open>a\<close>, reports busy, and after the statement has been
  prepared again delivers \<open>a\<close> and \<open>b\<close> and completes. The jump to \<^verbatim>\<open>try_sql\<close>
  resets the counters but not \<^verbatim>\<open>results\<close>: the row fetched before the contention is
  returned, and so appears twice.
\<close>

theorem exec_keeps_rows_fetched_before_contention:
  "exec ''q'' 0 False (idle_world\<lparr>prepares := [Compiled one_column, Compiled one_column],
       steps := [row_of ''a'', answer SQLITE_BUSY, row_of ''a'', row_of ''b'', answer SQLITE_DONE]\<rparr>) =
     Returns (Some \<lparr>headers = [''n''], data = [[''a''], [''a''], [''b'']], rows = 3, columns = 1\<rparr>)
       (idle_world\<lparr>trace := [Prepare ''q'', Step, Step, Log INFO (Sleeping 0), Finalize, Prepare ''q'',
          Log WARNING (Was_locked 5), Step, Step, Step, Finalize]\<rparr>)"
  by (simp add: run_defs)

text \<open>
  C4. With \<open>limit = 2\<close> and the same kind of run, the loop stops when the second
  attempt has fetched two rows, but the row kept from the first attempt makes three:
  more rows than the limit are returned. Without contention the limit holds
  (\<open>exec_limit_reverse\<close>).
\<close>

theorem exec_limit_exceeded_after_contention:
  "exec ''q'' 2 False (idle_world\<lparr>prepares := [Compiled one_column, Compiled one_column],
       steps := [row_of ''1'', answer SQLITE_BUSY, row_of ''1'', row_of ''2'', row_of ''3'',
                 answer SQLITE_DONE]\<rparr>) =
     Returns (Some \<lparr>headers = [''n''], data = [[''1''], [''1''], [''2'']], rows = 3, columns = 1\<rparr>)
       (idle_world\<lparr>steps := [row_of ''3'', answer SQLITE_DONE],
          trace := [Prepare ''q'', Step, Step, Log INFO (Sleeping 0), Finalize, Prepare ''q'',
            Log WARNING (Was_locked 5), Step, Step, Finalize]\<rparr>)"
  by (simp add: run_defs)

subsection \<open>Inserting an object\<close>

lemma exec_single_done:
  assumes "max_retries w < INT_MAX" and "prepares w = Compiled ps # prest"
    and "steps w = d # rest" and "code d = SQLITE_DONE"
  shows "exec q 0 False w =
         Returns None (w\<lparr>prepares := prest, steps := rest, last_insert_rowid := rowid d,
            trace := trace w @ [Prepare q, Step, Finalize]\<rparr>)"
  using assms prepare_stmt_compiled [OF assms(1,2), of q]
  by (simp add: exec_def Let_def finalize_def emit_def)

text \<open>
  C9. \<^verbatim>\<open>Database::insert\<close> with a null pointer returns 0 and leaves the world as it
  is: no statement is prepared or stepped. With an object, whenever it returns, it has
  run \<^verbatim>\<open>exec\<close> on the rendered \<^verbatim>\<open>INSERT\<close> and returns what
  \<^verbatim>\<open>sqlite3_last_insert_rowid\<close> reports afterwards; when \<^verbatim>\<open>exec\<close> ends the process,
  so does \<^verbatim>\<open>insert\<close>. When the engine compiles the statement and completes it at the
  first step, the value returned is the row identifier the engine reports after that
  step.
\<close>

theorem insert_contract:
  "insert_obj None w = Returns 0 w \<and>
   (\<forall>i w'. insert_obj (Some obj) w = Returns i w' \<longrightarrow>
      (\<exists>rs. exec (get_sql obj) 0 False w = Returns rs w') \<and> i = last_insert_rowid w') \<and>
   (verdict_of (exec (get_sql obj) 0 False w) = Exited \<longrightarrow>
      verdict_of (insert_obj (Some obj) w) = Exited) \<and>
   (max_retries w < INT_MAX \<longrightarrow> prepares w = Compiled ps # prest \<longrightarrow> steps w = d # rest \<longrightarrow>
    code d = SQLITE_DONE \<longrightarrow>
      insert_obj (Some obj) w =
        Returns (rowid d)
          (w\<lparr>prepares := prest, steps := rest, last_insert_rowid := rowid d,
             trace := trace w @ [Prepare (get_sql obj), Step, Finalize]\<rparr>))"
proof -
  have a: "insert_obj None w = Returns 0 w" by (simp add: insert_obj_def)
  have b: "\<forall>i w'. insert_obj (Some obj) w = Returns i w' \<longrightarrow>
      (\<exists>rs. exec (get_sql obj) 0 False w = Returns rs w') \<and> i = last_insert_rowid w'"
    by (auto simp: insert_obj_def split: outcome.splits)
  have c: "verdict_of (exec (get_sql obj) 0 False w) = Exited \<longrightarrow>
      verdict_of (insert_obj (Some obj) w) = Exited"
    by (cases "exec (get_sql obj) 0 False w") (simp_all add: insert_obj_def)
  have d: "max_retries w < INT_MAX \<longrightarrow> prepares w = Compiled ps # prest \<longrightarrow> steps w = d # rest \<longrightarrow>
    code d = SQLITE_DONE \<longrightarrow>
      insert_obj (Some obj) w =
        Returns (rowid d)
          (w\<lparr>prepares := prest, steps := rest, last_insert_rowid := rowid d,
             trace := trace w @ [Prepare (get_sql obj), Step, Finalize]\<rparr>)"
    by (simp add: insert_obj_def exec_single_done)
  from a b c d show ?thesis by blast
qed

theorem insert_contract_witness:
  "get_sql sample_object = ''INSERT INTO commands (rval, tty) VALUES (0, null); '' \<and>
   insert_obj (Some sample_object)
     (idle_world\<lparr>prepares := [Compiled one_column], steps := [done_with_rowid 42]\<rparr>) =
   Returns 42 (idle_world\<lparr>last_insert_rowid := 42,
      trace := [Prepare ''INSERT INTO commands (rval, tty) VALUES (0, null); '', Step, Finalize]\<rparr>)"
  using insert_contract [where obj = sample_object and ps = one_column and prest = "[]"
      and d = "done_with_rowid 42" and rest = "[]"
      and w = "idle_world\<lparr>prepares := [Compiled one_column], steps := [done_with_rowid 42]\<rparr>"]
  by (simp add: get_sql_def sample_object_def done_with_rowid_def idle_world_def max_retries_def
      get_int_def get_ash_env_def)

subsection \<open>Opening the database\<close>





subsection \<open>The delay of ash\_sleep\<close>





subsection \<open>The retry budget\<close>


lemma counts_rowid_update [simp]:
  "sleeps (w\<lparr>last_insert_rowid := i\<rparr>) = sleeps w"
  "prepare_calls (w\<lparr>last_insert_rowid := i\<rparr>) = prepare_calls w"
  by (simp_all add: sleeps_def prepare_calls_def)







text \<open>
  \<^verbatim>\<open>exec\<close> tests \<^verbatim>\<open>tries <= 0\<close> before it decrements, so with the default of 5 a
  seventh stepping attempt is still made after six contention answers.
\<close>

lemma exec_allows_one_more_retry:
  "returned (exec ''q'' 0 False (idle_world\<lparr>
      prepares := [Compiled one_column, Compiled one_column, Compiled one_column,
                   Compiled one_column, Compiled one_column, Compiled one_column,
                   Compiled one_column],
      steps := [answer SQLITE_BUSY, answer SQLITE_BUSY, answer SQLITE_BUSY, answer SQLITE_BUSY,
                answer SQLITE_BUSY, answer SQLITE_BUSY, answer SQLITE_DONE]\<rparr>)) = Some None \<and>
   max_retries idle_world = 5"
  by (simp add: run_defs)

end
